theory Spec2Isabelle
  imports Complex_Main "HOL-Library.Word"
begin

unbundle bit_operations_syntax

section \<open>ShaderTypes.h: the layout contract shared by host and shader code\<close>

text \<open>
  The header declares eleven anonymous structures behind typedef names, four capacity
  macros and four enumerations of binding slots. It has no functions: what can be
  verified is the layout that a C compiler derives from each declaration (field
  offsets, total size, alignment) and the numeric values of the enumerators.
  The declarations are embedded as data, in source order, and the layout is computed
  from them by the usual rule for non-packed aggregates.
\<close>

subsection \<open>Types of the declarations\<close>

text \<open>The element types the header uses: \<open>float\<close>, \<open>int\<close> and the types of simd/simd.h.\<close>

datatype prim = CFloat | CInt | SimdFloat2 | SimdFloat3 | SimdFloat4 | SimdFloat4x4

text \<open>
  A field is \<open>type name [[attribute(n)]];\<close> (the annotation is optional) or
  \<open>type name[N];\<close>. A structure keeps its typedef name and its fields in order.
\<close>

datatype ctype = Prim prim | Struct string "field list" | Array ctype nat
and field = Field string ctype "nat option"

fun field_name :: "field \<Rightarrow> string" where
  "field_name (Field n t a) = n"

fun field_type :: "field \<Rightarrow> ctype" where
  "field_type (Field n t a) = t"

fun field_attribute :: "field \<Rightarrow> nat option" where
  "field_attribute (Field n t a) = a"

fun struct_name :: "ctype \<Rightarrow> string" where
  "struct_name (Struct nm fs) = nm"
| "struct_name (Prim p) = []"
| "struct_name (Array t n) = []"

fun struct_fields :: "ctype \<Rightarrow> field list" where
  "struct_fields (Struct nm fs) = fs"
| "struct_fields (Prim p) = []"
| "struct_fields (Array t n) = []"

subsection \<open>Layout of non-packed aggregates\<close>

text \<open>
  The size and alignment of the element types belong to the platform, not to the
  header; the layout functions take them as a parameter.
\<close>

record abi =
  prim_size :: "prim \<Rightarrow> nat"
  prim_align :: "prim \<Rightarrow> nat"

definition round_up :: "nat \<Rightarrow> nat \<Rightarrow> nat" where
  "round_up n a = ((n + a - 1) div a) * a"

text \<open>
  An array is aligned as its element, a structure as its most aligned field.
\<close>

fun alignof :: "abi \<Rightarrow> ctype \<Rightarrow> nat"
and fields_align :: "abi \<Rightarrow> field list \<Rightarrow> nat" where
  "alignof r (Prim p) = prim_align r p"
| "alignof r (Array t n) = alignof r t"
| "alignof r (Struct nm fs) = fields_align r fs"
| "fields_align r [] = 1"
| "fields_align r (Field n t a # fs) = max (alignof r t) (fields_align r fs)"

text \<open>
  Fields are placed in declaration order, each at the next multiple of its alignment;
  \<open>fields_end\<close> is the first byte after the last field, and the size of the structure
  is that value rounded up to the alignment of the structure (the tail padding).
\<close>

fun sizeof :: "abi \<Rightarrow> ctype \<Rightarrow> nat"
and fields_end :: "abi \<Rightarrow> nat \<Rightarrow> field list \<Rightarrow> nat" where
  "sizeof r (Prim p) = prim_size r p"
| "sizeof r (Array t n) = n * sizeof r t"
| "sizeof r (Struct nm fs) = round_up (fields_end r 0 fs) (fields_align r fs)"
| "fields_end r off [] = off"
| "fields_end r off (Field n t a # fs) =
     fields_end r (round_up off (alignof r t) + sizeof r t) fs"

fun field_offsets :: "abi \<Rightarrow> nat \<Rightarrow> field list \<Rightarrow> (string \<times> nat) list" where
  "field_offsets r off [] = []"
| "field_offsets r off (Field n t a # fs) =
     (n, round_up off (alignof r t))
       # field_offsets r (round_up off (alignof r t) + sizeof r t) fs"

definition offsets :: "abi \<Rightarrow> ctype \<Rightarrow> (string \<times> nat) list" where
  "offsets r s = field_offsets r 0 (struct_fields s)"

definition offsetof :: "abi \<Rightarrow> ctype \<Rightarrow> string \<Rightarrow> nat option" where
  "offsetof r s n = map_of (offsets r s) n"

definition lookup_field :: "ctype \<Rightarrow> string \<Rightarrow> ctype option" where
  "lookup_field s n = map_of (map (\<lambda>f. (field_name f, field_type f)) (struct_fields s)) n"

text \<open>
  Modelled from the spec: the sizes and alignments of the element types, which come
  from the platform header simd/simd.h and the compiler and are not part of the
  repository. Floats and ints are 32 bits wide and 16 bytes is the governing unit:
  a two-component vector is 8 bytes, 8-aligned; three- and four-component vectors
  are 16 bytes, 16-aligned (the three-component vector has an unused fourth lane);
  a 4x4 matrix is four four-component columns, 64 bytes, 16-aligned.
\<close>

fun simd_size :: "prim \<Rightarrow> nat" where
  "simd_size CFloat = 4"
| "simd_size CInt = 4"
| "simd_size SimdFloat2 = 8"
| "simd_size SimdFloat3 = 16"
| "simd_size SimdFloat4 = 16"
| "simd_size SimdFloat4x4 = 64"

fun simd_align :: "prim \<Rightarrow> nat" where
  "simd_align CFloat = 4"
| "simd_align CInt = 4"
| "simd_align SimdFloat2 = 8"
| "simd_align SimdFloat3 = 16"
| "simd_align SimdFloat4 = 16"
| "simd_align SimdFloat4x4 = 16"

definition simd_abi :: abi where
  "simd_abi = \<lparr> prim_size = simd_size, prim_align = simd_align \<rparr>"

subsection \<open>The declarations of the header\<close>

definition MAX_POINT_LIGHTS :: nat where "MAX_POINT_LIGHTS = 8"
definition MAX_SPOT_LIGHTS :: nat where "MAX_SPOT_LIGHTS = 8"
definition MAX_DIRECTIONAL_LIGHTS :: nat where "MAX_DIRECTIONAL_LIGHTS = 4"
definition MAX_CASCADE_COUNT :: nat where "MAX_CASCADE_COUNT = 4"

definition VertexIn :: ctype where
  "VertexIn = Struct ''VertexIn''
     [Field ''position'' (Prim SimdFloat3) (Some 0),
      Field ''normal'' (Prim SimdFloat3) (Some 1),
      Field ''texCoords'' (Prim SimdFloat2) (Some 2),
      Field ''color'' (Prim SimdFloat4) (Some 3),
      Field ''tangent'' (Prim SimdFloat3) (Some 4)]"

definition Uniforms :: ctype where
  "Uniforms = Struct ''Uniforms''
     [Field ''modelMatrix'' (Prim SimdFloat4x4) None,
      Field ''viewMatrix'' (Prim SimdFloat4x4) None,
      Field ''projectionMatrix'' (Prim SimdFloat4x4) None]"

definition DirectionalLightData :: ctype where
  "DirectionalLightData = Struct ''DirectionalLightData''
     [Field ''direction'' (Prim SimdFloat3) None,
      Field ''intensity'' (Prim CFloat) None,
      Field ''color'' (Prim SimdFloat3) None,
      Field ''padding'' (Prim CFloat) None]"

definition PointLightData :: ctype where
  "PointLightData = Struct ''PointLightData''
     [Field ''position'' (Prim SimdFloat3) None,
      Field ''intensity'' (Prim CFloat) None,
      Field ''color'' (Prim SimdFloat3) None,
      Field ''range'' (Prim CFloat) None]"

definition SpotLightData :: ctype where
  "SpotLightData = Struct ''SpotLightData''
     [Field ''position'' (Prim SimdFloat3) None,
      Field ''intensity'' (Prim CFloat) None,
      Field ''direction'' (Prim SimdFloat3) None,
      Field ''range'' (Prim CFloat) None,
      Field ''color'' (Prim SimdFloat3) None,
      Field ''innerConeAngle'' (Prim CFloat) None,
      Field ''outerConeAngle'' (Prim CFloat) None,
      Field ''padding1'' (Prim CFloat) None,
      Field ''padding2'' (Prim SimdFloat2) None]"

definition LightingData :: ctype where
  "LightingData = Struct ''LightingData''
     [Field ''ambientColor'' (Prim SimdFloat3) None,
      Field ''padding0'' (Prim CFloat) None,
      Field ''cameraPosition'' (Prim SimdFloat3) None,
      Field ''padding1'' (Prim CFloat) None,
      Field ''directionalLight'' DirectionalLightData None,
      Field ''pointLightCount'' (Prim CInt) None,
      Field ''spotLightCount'' (Prim CInt) None,
      Field ''padding2'' (Prim SimdFloat2) None,
      Field ''pointLights'' (Array PointLightData MAX_POINT_LIGHTS) None,
      Field ''spotLights'' (Array SpotLightData MAX_SPOT_LIGHTS) None,
      Field ''cascadeDistances'' (Prim SimdFloat4) None,
      Field ''shadowMatrices'' (Array (Prim SimdFloat4x4) MAX_CASCADE_COUNT) None]"

definition MaterialData :: ctype where
  "MaterialData = Struct ''MaterialData''
     [Field ''baseColor'' (Prim SimdFloat4) None,
      Field ''metallic'' (Prim CFloat) None,
      Field ''roughness'' (Prim CFloat) None,
      Field ''ao'' (Prim CFloat) None,
      Field ''padding0'' (Prim CFloat) None,
      Field ''emissive'' (Prim SimdFloat3) None,
      Field ''padding1'' (Prim CFloat) None]"

definition ShadowUniforms :: ctype where
  "ShadowUniforms = Struct ''ShadowUniforms''
     [Field ''mvpMatrix'' (Prim SimdFloat4x4) None,
      Field ''bias'' (Prim CFloat) None,
      Field ''padding'' (Prim SimdFloat3) None]"

definition PointShadowUniforms :: ctype where
  "PointShadowUniforms = Struct ''PointShadowUniforms''
     [Field ''mvpMatrix'' (Prim SimdFloat4x4) None,
      Field ''lightPosition'' (Prim SimdFloat3) None,
      Field ''lightRange'' (Prim CFloat) None]"

definition Light :: ctype where
  "Light = Struct ''Light''
     [Field ''position'' (Prim SimdFloat3) None,
      Field ''direction'' (Prim SimdFloat3) None,
      Field ''color'' (Prim SimdFloat3) None,
      Field ''intensity'' (Prim CFloat) None,
      Field ''range'' (Prim CFloat) None,
      Field ''spotAngle'' (Prim CFloat) None]"

definition Material :: ctype where
  "Material = Struct ''Material''
     [Field ''albedo'' (Prim SimdFloat4) None,
      Field ''metallic'' (Prim CFloat) None,
      Field ''roughness'' (Prim CFloat) None,
      Field ''ao'' (Prim CFloat) None,
      Field ''emission'' (Prim CFloat) None]"

text \<open>The structures of the header, in the order of their declaration.\<close>

definition header_structs :: "ctype list" where
  "header_structs =
     [VertexIn, Uniforms, DirectionalLightData, PointLightData, SpotLightData,
      LightingData, MaterialData, ShadowUniforms, PointShadowUniforms, Light, Material]"

subsection \<open>Explicit and implicit padding\<close>

text \<open>
  The header names its unused fields \<open>padding\<close>, \<open>padding0\<close>, \<open>padding1\<close> and
  \<open>padding2\<close> (each commented as alignment filler).
\<close>

definition is_padding_name :: "string \<Rightarrow> bool" where
  "is_padding_name n = (n \<in> set [''padding'', ''padding0'', ''padding1'', ''padding2''])"

definition padding_fields :: "ctype \<Rightarrow> field list" where
  "padding_fields s = filter (\<lambda>f. is_padding_name (field_name f)) (struct_fields s)"

text \<open>The sum of the sizes of the declared fields, padding fields included.\<close>

definition declared_size_sum :: "abi \<Rightarrow> ctype \<Rightarrow> nat" where
  "declared_size_sum r s = sum_list (map (\<lambda>f. sizeof r (field_type f)) (struct_fields s))"

text \<open>The bytes of a structure that belong to no declared field.\<close>

definition implicit_padding :: "abi \<Rightarrow> ctype \<Rightarrow> nat" where
  "implicit_padding r s = sizeof r s - declared_size_sum r s"

text \<open>
  The number of 32-bit lanes of an element type, and the sizes counted by components
  alone: four bytes per lane and no alignment beyond that of a scalar, so that a
  three-component vector counts as 12 bytes. This is the arithmetic behind the
  padding fields of the header (a three-component vector followed by one float
  filling 16 bytes); it is not the layout the platform uses.
\<close>

fun prim_lanes :: "prim \<Rightarrow> nat" where
  "prim_lanes CFloat = 1"
| "prim_lanes CInt = 1"
| "prim_lanes SimdFloat2 = 2"
| "prim_lanes SimdFloat3 = 3"
| "prim_lanes SimdFloat4 = 4"
| "prim_lanes SimdFloat4x4 = 16"

definition component_abi :: abi where
  "component_abi = \<lparr> prim_size = (\<lambda>p. 4 * prim_lanes p), prim_align = (\<lambda>p. 4) \<rparr>"

text \<open>The sum of the sizes of the fields that are not padding fields.\<close>

definition natural_size_sum :: "abi \<Rightarrow> ctype \<Rightarrow> nat" where
  "natural_size_sum r s =
     sum_list (map (\<lambda>f. sizeof r (field_type f))
       (filter (\<lambda>f. \<not> is_padding_name (field_name f)) (struct_fields s)))"

text \<open>
  A structure is padded explicitly when it has padding fields and its declared field
  sizes sum to a multiple of 16. The rule of explicit padding asks this of every
  structure whose other fields do not already sum to a multiple of 16.
\<close>

definition padded_to_16 :: "abi \<Rightarrow> ctype \<Rightarrow> bool" where
  "padded_to_16 r s = (padding_fields s \<noteq> [] \<and> declared_size_sum r s mod 16 = 0)"

definition explicit_padding_rule :: "abi \<Rightarrow> ctype \<Rightarrow> bool" where
  "explicit_padding_rule r s = (natural_size_sum r s mod 16 = 0 \<or> padded_to_16 r s)"

text \<open>
  The bytes the compiler appends after the last field, and the structures that have
  such bytes and no padding field of their own.
\<close>

definition tail_padding :: "abi \<Rightarrow> ctype \<Rightarrow> nat" where
  "tail_padding r s = sizeof r s - fields_end r 0 (struct_fields s)"

definition relies_on_tail_padding :: "abi \<Rightarrow> ctype \<Rightarrow> bool" where
  "relies_on_tail_padding r s = (padding_fields s = [] \<and> 0 < tail_padding r s)"

subsection \<open>Array fields\<close>

fun element_type :: "ctype \<Rightarrow> ctype" where
  "element_type (Array t n) = t"
| "element_type (Prim p) = Prim p"
| "element_type (Struct nm fs) = Struct nm fs"

fun array_length :: "ctype \<Rightarrow> nat option" where
  "array_length (Array t n) = Some n"
| "array_length (Prim p) = None"
| "array_length (Struct nm fs) = None"

text \<open>
  The read \<open>s.n[i]\<close> of an array field with an index of type \<open>int\<close>: the byte offset
  and the type of the element, or \<open>None\<close> when the field is not an array or the index
  is outside \<open>0 .. len - 1\<close> (where C leaves the behaviour undefined).
\<close>

definition index_field :: "abi \<Rightarrow> ctype \<Rightarrow> string \<Rightarrow> int \<Rightarrow> (nat \<times> ctype) option" where
  "index_field r s n i =
     (case (offsetof r s n, lookup_field s n) of
        (Some off, Some (Array t len)) \<Rightarrow>
          if 0 \<le> i \<and> i < int len then Some (off + nat i * sizeof r t, t) else None
      | _ \<Rightarrow> None)"

subsection \<open>The enumerations of binding slots\<close>

text \<open>
  Each enumeration is declared with \<open>NS_ENUM\<close> over \<open>EnumBackingType\<close> (a 32-bit
  integer for the shader compiler, \<open>NSInteger\<close> for the host) and gives every
  enumerator an explicit value. Several enumerators may carry the same value, so an
  enumeration is kept as the list of its (name, value) pairs in source order.
\<close>

type_synonym enum_decl = "(string \<times> int) list"

definition enumerator :: "enum_decl \<Rightarrow> string \<Rightarrow> int option" where
  "enumerator e n = map_of e n"

definition enumerators_at :: "enum_decl \<Rightarrow> int \<Rightarrow> string list" where
  "enumerators_at e v = map fst (filter (\<lambda>p. snd p = v) e)"

definition BufferIndex :: enum_decl where
  "BufferIndex =
     [(''BufferIndexVertices'', 0),
      (''BufferIndexUniforms'', 1),
      (''BufferIndexLightingData'', 2),
      (''BufferIndexMaterialData'', 3),
      (''BufferIndexShadowData'', 4),
      (''BufferIndexLights'', 2),
      (''BufferIndexMaterial'', 3)]"

definition VertexAttribute :: enum_decl where
  "VertexAttribute =
     [(''VertexAttributePosition'', 0),
      (''VertexAttributeNormal'', 1),
      (''VertexAttributeTexCoord'', 2),
      (''VertexAttributeColor'', 3),
      (''VertexAttributeTangent'', 4)]"

definition TextureIndex :: enum_decl where
  "TextureIndex =
     [(''TextureIndexAlbedo'', 0),
      (''TextureIndexNormal'', 1),
      (''TextureIndexMetallicRoughness'', 2),
      (''TextureIndexAO'', 3),
      (''TextureIndexEmissive'', 4),
      (''TextureIndexShadowMap0'', 5),
      (''TextureIndexShadowMap1'', 6),
      (''TextureIndexShadowMap2'', 7),
      (''TextureIndexShadowMap3'', 8),
      (''TextureIndexMetallic'', 2),
      (''TextureIndexRoughness'', 3),
      (''TextureIndexEmission'', 5)]"

definition SamplerIndex :: enum_decl where
  "SamplerIndex =
     [(''SamplerIndexTexture'', 0),
      (''SamplerIndexShadow'', 1)]"

subsection \<open>Raw byte images\<close>

text \<open>
  Modelled from the spec: the header declares the structures only; the code that
  fills a structure and hands its bytes to the GPU is host code outside the
  repository. The spec describes it as populating a structure with literal field
  values, which is then copied verbatim as its raw byte representation, with float
  values in little-endian IEEE-754 binary32. The model below supplies that: binary32
  values as sign, biased exponent and fraction, their bit pattern and its four bytes
  in little-endian order; the storage of the structure as a list of \<open>sizeof\<close> bytes;
  and the population of the structure as one store per field into that storage.
\<close>

type_synonym byte = "8 word"

record float32 =
  f_sign :: bool
  f_exp :: nat
  f_frac :: nat

definition float32_bits :: "float32 \<Rightarrow> 32 word" where
  "float32_bits f =
     push_bit 31 (if f_sign f then 1 else 0) OR push_bit 23 (word_of_nat (f_exp f))
       OR word_of_nat (f_frac f)"





definition le_bytes32 :: "32 word \<Rightarrow> byte list" where
  "le_bytes32 w = [ucast w, ucast (drop_bit 8 w), ucast (drop_bit 16 w), ucast (drop_bit 24 w)]"

text \<open>Values of the declared types: a matrix is given by its 16 lanes, column by column.\<close>

datatype cval = VFloat float32 | VInt "32 word" | VVec "float32 list"
  | VStruct "cval list" | VArray "cval list"

definition place_at :: "nat \<Rightarrow> byte list \<Rightarrow> byte list \<Rightarrow> byte list" where
  "place_at off bs buf = take off buf @ bs @ drop (off + length bs) buf"


text \<open>
  The bytes of the lanes of a scalar, vector or matrix value: four per lane, nothing
  for the unused fourth lane of a three-component vector. \<open>None\<close> when the value
  does not have the type.
\<close>

fun prim_bytes :: "prim \<Rightarrow> cval \<Rightarrow> byte list option" where
  "prim_bytes CFloat (VFloat f) = Some (le_bytes32 (float32_bits f))"
| "prim_bytes CInt (VInt w) = Some (le_bytes32 w)"
| "prim_bytes p (VVec fs) =
     (if 1 < prim_lanes p \<and> length fs = prim_lanes p
      then Some (concat (map (\<lambda>f. le_bytes32 (float32_bits f)) fs))
      else None)"
| "prim_bytes p v = None"

text \<open>
  Modelled from the spec: storing a value of a declared type at a byte offset of the
  storage. A store writes the lanes of each scalar, vector and matrix at the offset
  the layout gives it and nothing else: the bytes that belong to no lane (alignment
  gaps, the unused lane of a three-component vector, the tail of a structure) keep
  what the storage held before. Padding fields are fields and are stored like any
  other.
\<close>

fun store :: "abi \<Rightarrow> ctype \<Rightarrow> cval \<Rightarrow> nat \<Rightarrow> byte list \<Rightarrow> byte list option"
and store_fields ::
  "abi \<Rightarrow> nat \<Rightarrow> nat \<Rightarrow> field list \<Rightarrow> cval list \<Rightarrow> byte list \<Rightarrow> byte list option"
and store_elems :: "abi \<Rightarrow> ctype \<Rightarrow> cval list \<Rightarrow> nat \<Rightarrow> byte list \<Rightarrow> byte list option" where
  "store r (Prim p) v off buf = map_option (\<lambda>bs. place_at off bs buf) (prim_bytes p v)"
| "store r (Struct nm fs) (VStruct vs) off buf = store_fields r off 0 fs vs buf"
| "store r (Struct nm fs) v off buf = None"
| "store r (Array t n) (VArray vs) off buf =
     (if length vs = n then store_elems r t vs off buf else None)"
| "store r (Array t n) v off buf = None"
| "store_fields r base cur [] [] buf = Some buf"
| "store_fields r base cur (Field n t a # fs) (v # vs) buf =
     (case store r t v (base + round_up cur (alignof r t)) buf of
        None \<Rightarrow> None
      | Some buf' \<Rightarrow>
          store_fields r base (round_up cur (alignof r t) + sizeof r t) fs vs buf')"
| "store_fields r base cur fs vs buf = None"
| "store_elems r t [] off buf = Some buf"
| "store_elems r t (v # vs) off buf =
     (case store r t v off buf of
        None \<Rightarrow> None
      | Some buf' \<Rightarrow> store_elems r t vs (off + sizeof r t) buf')"







section \<open>Layout of the structures\<close>

lemma simd_abi_simps:
  "prim_size simd_abi = simd_size" "prim_align simd_abi = simd_align"
  by (simp_all add: simd_abi_def)

lemmas layout_simps = simd_abi_simps round_up_def

lemma layout_VertexIn:
  "alignof simd_abi VertexIn = 16" "sizeof simd_abi VertexIn = 80"
  by (simp_all add: VertexIn_def layout_simps)

lemma layout_Uniforms:
  "alignof simd_abi Uniforms = 16" "sizeof simd_abi Uniforms = 192"
  by (simp_all add: Uniforms_def layout_simps)

lemma layout_DirectionalLightData:
  "alignof simd_abi DirectionalLightData = 16" "sizeof simd_abi DirectionalLightData = 64"
  by (simp_all add: DirectionalLightData_def layout_simps)

lemma layout_PointLightData:
  "alignof simd_abi PointLightData = 16" "sizeof simd_abi PointLightData = 64"
  by (simp_all add: PointLightData_def layout_simps)

lemma layout_SpotLightData:
  "alignof simd_abi SpotLightData = 16" "sizeof simd_abi SpotLightData = 112"
  by (simp_all add: SpotLightData_def layout_simps)

lemma layout_LightingData:
  "alignof simd_abi LightingData = 16" "sizeof simd_abi LightingData = 1824"
  by (simp_all add: LightingData_def layout_DirectionalLightData layout_PointLightData
      layout_SpotLightData MAX_POINT_LIGHTS_def MAX_SPOT_LIGHTS_def MAX_CASCADE_COUNT_def
      layout_simps)

lemma layout_MaterialData:
  "alignof simd_abi MaterialData = 16" "sizeof simd_abi MaterialData = 64"
  by (simp_all add: MaterialData_def layout_simps)

lemma layout_ShadowUniforms:
  "alignof simd_abi ShadowUniforms = 16" "sizeof simd_abi ShadowUniforms = 96"
  by (simp_all add: ShadowUniforms_def layout_simps)

lemma layout_PointShadowUniforms:
  "alignof simd_abi PointShadowUniforms = 16" "sizeof simd_abi PointShadowUniforms = 96"
  by (simp_all add: PointShadowUniforms_def layout_simps)

lemma layout_Light:
  "alignof simd_abi Light = 16" "sizeof simd_abi Light = 64"
  by (simp_all add: Light_def layout_simps)

lemma layout_Material:
  "alignof simd_abi Material = 16" "sizeof simd_abi Material = 32"
  by (simp_all add: Material_def layout_simps)

lemmas layout_header = layout_VertexIn layout_Uniforms layout_DirectionalLightData
  layout_PointLightData layout_SpotLightData layout_LightingData layout_MaterialData
  layout_ShadowUniforms layout_PointShadowUniforms layout_Light layout_Material

text \<open>
  C1. Every structure of the header (VertexIn, Uniforms, DirectionalLightData,
  PointLightData, SpotLightData, LightingData, MaterialData, ShadowUniforms,
  PointShadowUniforms, Light, Material) has, under the declared field order and the
  platform's non-packed layout, a total size that is a multiple of 16 bytes.
\<close>

theorem sizes_multiple_of_16:
  "map struct_name header_structs =
     [''VertexIn'', ''Uniforms'', ''DirectionalLightData'', ''PointLightData'',
      ''SpotLightData'', ''LightingData'', ''MaterialData'', ''ShadowUniforms'',
      ''PointShadowUniforms'', ''Light'', ''Material'']
   \<and> (\<forall>s \<in> set header_structs. sizeof simd_abi s mod 16 = 0)"
proof
  show "map struct_name header_structs =
     [''VertexIn'', ''Uniforms'', ''DirectionalLightData'', ''PointLightData'',
      ''SpotLightData'', ''LightingData'', ''MaterialData'', ''ShadowUniforms'',
      ''PointShadowUniforms'', ''Light'', ''Material'']"
    by (simp add: header_structs_def VertexIn_def Uniforms_def DirectionalLightData_def
        PointLightData_def SpotLightData_def LightingData_def MaterialData_def
        ShadowUniforms_def PointShadowUniforms_def Light_def Material_def)
  show "\<forall>s \<in> set header_structs. sizeof simd_abi s mod 16 = 0"
    by (simp add: header_structs_def layout_header)
qed

theorem sizes_multiple_of_16_witness:
  "Light \<in> set header_structs \<and> sizeof simd_abi Light mod 16 = 0"
  using sizes_multiple_of_16 by (simp add: header_structs_def)

text \<open>
  C8. Uniforms is exactly the three 4x4 matrices modelMatrix, viewMatrix and
  projectionMatrix in this order, has no padding field and no implicit padding, so
  its size is 3 * 64 = 192 bytes and the matrices start at offsets 0, 64 and 128.
\<close>

theorem Uniforms_layout:
  "map field_name (struct_fields Uniforms) =
     [''modelMatrix'', ''viewMatrix'', ''projectionMatrix'']
   \<and> map field_type (struct_fields Uniforms) = replicate 3 (Prim SimdFloat4x4)
   \<and> padding_fields Uniforms = []
   \<and> implicit_padding simd_abi Uniforms = 0
   \<and> alignof simd_abi (Prim SimdFloat4x4) = 16
   \<and> sizeof simd_abi Uniforms = 3 * sizeof simd_abi (Prim SimdFloat4x4)
   \<and> sizeof simd_abi Uniforms = 192
   \<and> offsets simd_abi Uniforms =
       [(''modelMatrix'', 0), (''viewMatrix'', 64), (''projectionMatrix'', 128)]"
  by (simp add: Uniforms_def padding_fields_def is_padding_name_def implicit_padding_def
      declared_size_sum_def offsets_def layout_simps numeral_3_eq_3)

text \<open>
  C9. In MaterialData the field padding0 follows the scalars metallic, roughness and
  ao, so that baseColor is at offset 0, the four scalars fill the bytes 16 to 31, and
  the declared fields before emissive end at byte 32: emissive starts at offset 32,
  a multiple of its 16-byte alignment.
\<close>

theorem MaterialData_emissive_aligned:
  "offsets simd_abi MaterialData =
     [(''baseColor'', 0), (''metallic'', 16), (''roughness'', 20), (''ao'', 24),
      (''padding0'', 28), (''emissive'', 32), (''padding1'', 48)]
   \<and> fields_end simd_abi 0
        (takeWhile (\<lambda>f. field_name f \<noteq> ''emissive'') (struct_fields MaterialData)) = 32
   \<and> offsetof simd_abi MaterialData ''emissive'' = Some 32
   \<and> lookup_field MaterialData ''emissive'' = Some (Prim SimdFloat3)
   \<and> alignof simd_abi (Prim SimdFloat3) = 16
   \<and> (32::nat) mod 16 = 0"
  by (simp add: MaterialData_def offsets_def offsetof_def lookup_field_def layout_simps)

section \<open>Explicit padding\<close>

lemmas struct_defs = VertexIn_def Uniforms_def DirectionalLightData_def PointLightData_def
  SpotLightData_def LightingData_def MaterialData_def ShadowUniforms_def
  PointShadowUniforms_def Light_def Material_def

lemmas capacity_defs = MAX_POINT_LIGHTS_def MAX_SPOT_LIGHTS_def MAX_CASCADE_COUNT_def

lemma component_abi_simps:
  "prim_size component_abi p = 4 * prim_lanes p" "prim_align component_abi p = 4"
  by (simp_all add: component_abi_def)

lemma struct_names:
  "struct_name VertexIn = ''VertexIn''"
  "struct_name Uniforms = ''Uniforms''"
  "struct_name DirectionalLightData = ''DirectionalLightData''"
  "struct_name PointLightData = ''PointLightData''"
  "struct_name SpotLightData = ''SpotLightData''"
  "struct_name LightingData = ''LightingData''"
  "struct_name MaterialData = ''MaterialData''"
  "struct_name ShadowUniforms = ''ShadowUniforms''"
  "struct_name PointShadowUniforms = ''PointShadowUniforms''"
  "struct_name Light = ''Light''"
  "struct_name Material = ''Material''"
  by (simp_all add: struct_defs)

lemma padding_presence:
  "padding_fields VertexIn = []"
  "padding_fields Uniforms = []"
  "padding_fields DirectionalLightData \<noteq> []"
  "padding_fields PointLightData = []"
  "padding_fields SpotLightData \<noteq> []"
  "padding_fields LightingData \<noteq> []"
  "padding_fields MaterialData \<noteq> []"
  "padding_fields ShadowUniforms \<noteq> []"
  "padding_fields PointShadowUniforms = []"
  "padding_fields Light = []"
  "padding_fields Material = []"
  by (simp_all add: struct_defs padding_fields_def is_padding_name_def)

lemma component_natural_sums:
  "natural_size_sum component_abi VertexIn = 60"
  "natural_size_sum component_abi Uniforms = 192"
  "natural_size_sum component_abi DirectionalLightData = 28"
  "natural_size_sum component_abi PointLightData = 32"
  "natural_size_sum component_abi SpotLightData = 52"
  "natural_size_sum component_abi LightingData = 1104"
  "natural_size_sum component_abi MaterialData = 40"
  "natural_size_sum component_abi ShadowUniforms = 68"
  "natural_size_sum component_abi PointShadowUniforms = 80"
  "natural_size_sum component_abi Light = 48"
  "natural_size_sum component_abi Material = 32"
  by (simp_all add: struct_defs natural_size_sum_def is_padding_name_def component_abi_simps
      round_up_def capacity_defs)

lemma component_declared_sums:
  "declared_size_sum component_abi VertexIn = 60"
  "declared_size_sum component_abi Uniforms = 192"
  "declared_size_sum component_abi DirectionalLightData = 32"
  "declared_size_sum component_abi PointLightData = 32"
  "declared_size_sum component_abi SpotLightData = 64"
  "declared_size_sum component_abi LightingData = 1120"
  "declared_size_sum component_abi MaterialData = 48"
  "declared_size_sum component_abi ShadowUniforms = 80"
  "declared_size_sum component_abi PointShadowUniforms = 80"
  "declared_size_sum component_abi Light = 48"
  "declared_size_sum component_abi Material = 32"
  by (simp_all add: struct_defs declared_size_sum_def component_abi_simps
      round_up_def capacity_defs)

lemma simd_natural_sums:
  "natural_size_sum simd_abi VertexIn = 72"
  "natural_size_sum simd_abi Uniforms = 192"
  "natural_size_sum simd_abi DirectionalLightData = 36"
  "natural_size_sum simd_abi PointLightData = 40"
  "natural_size_sum simd_abi SpotLightData = 64"
  "natural_size_sum simd_abi LightingData = 1784"
  "natural_size_sum simd_abi MaterialData = 44"
  "natural_size_sum simd_abi ShadowUniforms = 68"
  "natural_size_sum simd_abi PointShadowUniforms = 84"
  "natural_size_sum simd_abi Light = 60"
  "natural_size_sum simd_abi Material = 32"
  by (simp_all add: struct_defs natural_size_sum_def is_padding_name_def layout_simps
      capacity_defs)

lemma simd_declared_sums:
  "declared_size_sum simd_abi VertexIn = 72"
  "declared_size_sum simd_abi Uniforms = 192"
  "declared_size_sum simd_abi DirectionalLightData = 40"
  "declared_size_sum simd_abi PointLightData = 40"
  "declared_size_sum simd_abi SpotLightData = 76"
  "declared_size_sum simd_abi LightingData = 1800"
  "declared_size_sum simd_abi MaterialData = 52"
  "declared_size_sum simd_abi ShadowUniforms = 84"
  "declared_size_sum simd_abi PointShadowUniforms = 84"
  "declared_size_sum simd_abi Light = 60"
  "declared_size_sum simd_abi Material = 32"
  by (simp_all add: struct_defs declared_size_sum_def layout_simps capacity_defs)

lemma simd_fields_end:
  "fields_end simd_abi 0 (struct_fields VertexIn) = 80"
  "fields_end simd_abi 0 (struct_fields Uniforms) = 192"
  "fields_end simd_abi 0 (struct_fields DirectionalLightData) = 52"
  "fields_end simd_abi 0 (struct_fields PointLightData) = 52"
  "fields_end simd_abi 0 (struct_fields SpotLightData) = 104"
  "fields_end simd_abi 0 (struct_fields LightingData) = 1824"
  "fields_end simd_abi 0 (struct_fields MaterialData) = 52"
  "fields_end simd_abi 0 (struct_fields ShadowUniforms) = 96"
  "fields_end simd_abi 0 (struct_fields PointShadowUniforms) = 84"
  "fields_end simd_abi 0 (struct_fields Light) = 60"
  "fields_end simd_abi 0 (struct_fields Material) = 32"
  by (simp_all add: struct_defs layout_simps capacity_defs)

text \<open>
  C2, as stated, fails. The claim is that every structure whose natural field sizes
  do not sum to a multiple of 16 carries explicit padding fields that bring the sum
  of the declared field sizes to a multiple of 16, and that no structure relies
  solely on implicit tail padding. VertexIn has no padding field and its field sizes
  sum to 72 bytes under the platform's sizes and to 60 bytes counted by components,
  neither a multiple of 16. Light has no padding field either; its fields end at
  byte 60 and the compiler appends 4 bytes of tail padding to reach 64.
\<close>

theorem explicit_padding_counterexample:
  "VertexIn \<in> set header_structs
   \<and> padding_fields VertexIn = []
   \<and> natural_size_sum simd_abi VertexIn = 72
   \<and> natural_size_sum component_abi VertexIn = 60
   \<and> \<not> explicit_padding_rule simd_abi VertexIn
   \<and> \<not> explicit_padding_rule component_abi VertexIn
   \<and> Light \<in> set header_structs
   \<and> padding_fields Light = []
   \<and> fields_end simd_abi 0 (struct_fields Light) = 60
   \<and> sizeof simd_abi Light = 64
   \<and> relies_on_tail_padding simd_abi Light"
  by (simp add: header_structs_def explicit_padding_rule_def padded_to_16_def
      relies_on_tail_padding_def tail_padding_def padding_presence component_natural_sums
      simd_natural_sums simd_fields_end layout_Light)

text \<open>
  C2, amended. Counting every field at the size of its components (a three-component
  vector as 12 bytes), every structure except VertexIn either has non-padding fields
  that sum to a multiple of 16 bytes or carries explicit padding fields that bring
  the sum of its declared field sizes to a multiple of 16. Padding fields occur
  exactly in DirectionalLightData, SpotLightData, LightingData, MaterialData and
  ShadowUniforms. Under the platform's layout only Uniforms and Material are free of
  implicit padding, and PointLightData, PointShadowUniforms and Light, which declare
  no padding field, reach their size through 12, 12 and 4 bytes of implicit tail
  padding.
\<close>

theorem explicit_padding_amended:
  "map struct_name (filter (\<lambda>s. \<not> explicit_padding_rule component_abi s) header_structs)
     = [''VertexIn'']
   \<and> map struct_name (filter (\<lambda>s. padding_fields s \<noteq> []) header_structs)
     = [''DirectionalLightData'', ''SpotLightData'', ''LightingData'', ''MaterialData'',
        ''ShadowUniforms'']
   \<and> map struct_name (filter (\<lambda>s. implicit_padding simd_abi s = 0) header_structs)
     = [''Uniforms'', ''Material'']
   \<and> map (\<lambda>s. (struct_name s, tail_padding simd_abi s))
        (filter (relies_on_tail_padding simd_abi) header_structs)
     = [(''PointLightData'', 12), (''PointShadowUniforms'', 12), (''Light'', 4)]"
proof (intro conjI)
  show "map struct_name (filter (\<lambda>s. \<not> explicit_padding_rule component_abi s) header_structs)
     = [''VertexIn'']"
    by (simp add: header_structs_def explicit_padding_rule_def padded_to_16_def
        padding_presence component_natural_sums component_declared_sums struct_names)
  show "map struct_name (filter (\<lambda>s. padding_fields s \<noteq> []) header_structs)
     = [''DirectionalLightData'', ''SpotLightData'', ''LightingData'', ''MaterialData'',
        ''ShadowUniforms'']"
    by (simp add: header_structs_def padding_presence struct_names)
  show "map struct_name (filter (\<lambda>s. implicit_padding simd_abi s = 0) header_structs)
     = [''Uniforms'', ''Material'']"
    by (simp add: header_structs_def implicit_padding_def layout_header simd_declared_sums
        struct_names)
  show "map (\<lambda>s. (struct_name s, tail_padding simd_abi s))
        (filter (relies_on_tail_padding simd_abi) header_structs)
     = [(''PointLightData'', 12), (''PointShadowUniforms'', 12), (''Light'', 4)]"
    by (simp add: header_structs_def relies_on_tail_padding_def tail_padding_def
        layout_header simd_fields_end padding_presence struct_names)
qed

section \<open>Binding slots and capacities\<close>

text \<open>
  C3. In BufferIndex the legacy names are numeric aliases of the modern ones:
  BufferIndexLights equals BufferIndexLightingData (both 2) and BufferIndexMaterial
  equals BufferIndexMaterialData (both 3).
\<close>

theorem buffer_index_aliases:
  "enumerator BufferIndex ''BufferIndexLights''
     = enumerator BufferIndex ''BufferIndexLightingData''
   \<and> enumerator BufferIndex ''BufferIndexMaterial''
     = enumerator BufferIndex ''BufferIndexMaterialData''
   \<and> enumerator BufferIndex ''BufferIndexLights'' = Some 2
   \<and> enumerator BufferIndex ''BufferIndexLightingData'' = Some 2
   \<and> enumerator BufferIndex ''BufferIndexMaterial'' = Some 3
   \<and> enumerator BufferIndex ''BufferIndexMaterialData'' = Some 3
   \<and> enumerators_at BufferIndex 2 = [''BufferIndexLightingData'', ''BufferIndexLights'']
   \<and> enumerators_at BufferIndex 3 = [''BufferIndexMaterialData'', ''BufferIndexMaterial'']"
  by (simp add: enumerator_def enumerators_at_def BufferIndex_def)

text \<open>
  C4. The capacity constants are MAX_POINT_LIGHTS = 8, MAX_SPOT_LIGHTS = 8,
  MAX_DIRECTIONAL_LIGHTS = 4 and MAX_CASCADE_COUNT = 4. In LightingData, pointLights
  has 8 elements, spotLights has 8, shadowMatrices has 4, these are its only arrays,
  and the single field of type DirectionalLightData, directionalLight, is embedded
  directly and is not an array.
\<close>

theorem capacity_constants:
  "MAX_POINT_LIGHTS = 8 \<and> MAX_SPOT_LIGHTS = 8
   \<and> MAX_DIRECTIONAL_LIGHTS = 4 \<and> MAX_CASCADE_COUNT = 4
   \<and> lookup_field LightingData ''pointLights'' = Some (Array PointLightData 8)
   \<and> lookup_field LightingData ''spotLights'' = Some (Array SpotLightData 8)
   \<and> lookup_field LightingData ''shadowMatrices'' = Some (Array (Prim SimdFloat4x4) 4)
   \<and> lookup_field LightingData ''directionalLight'' = Some DirectionalLightData
   \<and> array_length DirectionalLightData = None
   \<and> map field_name (filter (\<lambda>f. element_type (field_type f) = DirectionalLightData)
          (struct_fields LightingData)) = [''directionalLight'']
   \<and> map (\<lambda>f. (field_name f, array_length (field_type f)))
        (filter (\<lambda>f. array_length (field_type f) \<noteq> None) (struct_fields LightingData)) =
       [(''pointLights'', Some 8), (''spotLights'', Some 8), (''shadowMatrices'', Some 4)]"
  by (simp add: MAX_POINT_LIGHTS_def MAX_SPOT_LIGHTS_def MAX_DIRECTIONAL_LIGHTS_def
      MAX_CASCADE_COUNT_def lookup_field_def LightingData_def DirectionalLightData_def
      PointLightData_def SpotLightData_def)

text \<open>
  C5. The vertex attribute slots are position = 0, normal = 1, texture coordinates = 2,
  color = 3 and tangent = 4, both in the attribute annotations of the fields of
  VertexIn and in the enumerators of VertexAttribute, field for field in the same
  order.
\<close>

theorem vertex_attribute_slots:
  "map (\<lambda>f. (field_name f, field_attribute f)) (struct_fields VertexIn) =
     [(''position'', Some 0), (''normal'', Some 1), (''texCoords'', Some 2),
      (''color'', Some 3), (''tangent'', Some 4)]
   \<and> enumerator VertexAttribute ''VertexAttributePosition'' = Some 0
   \<and> enumerator VertexAttribute ''VertexAttributeNormal'' = Some 1
   \<and> enumerator VertexAttribute ''VertexAttributeTexCoord'' = Some 2
   \<and> enumerator VertexAttribute ''VertexAttributeColor'' = Some 3
   \<and> enumerator VertexAttribute ''VertexAttributeTangent'' = Some 4
   \<and> map fst VertexAttribute =
       [''VertexAttributePosition'', ''VertexAttributeNormal'', ''VertexAttributeTexCoord'',
        ''VertexAttributeColor'', ''VertexAttributeTangent'']
   \<and> map (\<lambda>f. map_option int (field_attribute f)) (struct_fields VertexIn)
       = map (\<lambda>p. Some (snd p)) VertexAttribute"
  by (simp add: enumerator_def VertexAttribute_def VertexIn_def)

text \<open>
  C10. In TextureIndex the legacy enumerators alias as follows: TextureIndexMetallic
  and TextureIndexMetallicRoughness are 2, TextureIndexRoughness and TextureIndexAO
  are 3, TextureIndexEmission and TextureIndexShadowMap0 are 5. TextureIndexEmissive
  is 4, so the legacy TextureIndexEmission differs from it and shares its slot with
  cascade shadow map 0.
\<close>

theorem texture_index_aliases:
  "enumerator TextureIndex ''TextureIndexMetallic'' = Some 2
   \<and> enumerator TextureIndex ''TextureIndexMetallicRoughness'' = Some 2
   \<and> enumerator TextureIndex ''TextureIndexRoughness'' = Some 3
   \<and> enumerator TextureIndex ''TextureIndexAO'' = Some 3
   \<and> enumerator TextureIndex ''TextureIndexEmission'' = Some 5
   \<and> enumerator TextureIndex ''TextureIndexShadowMap0'' = Some 5
   \<and> enumerator TextureIndex ''TextureIndexEmissive'' = Some 4
   \<and> enumerator TextureIndex ''TextureIndexEmission''
       \<noteq> enumerator TextureIndex ''TextureIndexEmissive''
   \<and> enumerators_at TextureIndex 5 = [''TextureIndexShadowMap0'', ''TextureIndexEmission'']
   \<and> enumerators_at TextureIndex 4 = [''TextureIndexEmissive'']"
  by (simp add: enumerator_def enumerators_at_def TextureIndex_def)

section \<open>Reads of the light arrays\<close>

lemma LightingData_offsets:
  "offsets simd_abi LightingData =
     [(''ambientColor'', 0), (''padding0'', 16), (''cameraPosition'', 32),
      (''padding1'', 48), (''directionalLight'', 64), (''pointLightCount'', 128),
      (''spotLightCount'', 132), (''padding2'', 136), (''pointLights'', 144),
      (''spotLights'', 656), (''cascadeDistances'', 1552), (''shadowMatrices'', 1568)]"
  by (simp add: offsets_def LightingData_def layout_DirectionalLightData layout_PointLightData
      layout_SpotLightData capacity_defs layout_simps)

lemma LightingData_arrays:
  "lookup_field LightingData ''pointLights'' = Some (Array PointLightData 8)"
  "lookup_field LightingData ''spotLights'' = Some (Array SpotLightData 8)"
  by (simp_all add: lookup_field_def LightingData_def capacity_defs)

lemma index_pointLights:
  "index_field simd_abi LightingData ''pointLights'' i =
     (if 0 \<le> i \<and> i < 8 then Some (144 + nat i * 64, PointLightData) else None)"
  by (simp add: index_field_def offsetof_def LightingData_offsets LightingData_arrays
      layout_PointLightData)

lemma index_spotLights:
  "index_field simd_abi LightingData ''spotLights'' j =
     (if 0 \<le> j \<and> j < 8 then Some (656 + nat j * 112, SpotLightData) else None)"
  by (simp add: index_field_def offsetof_def LightingData_offsets LightingData_arrays
      layout_SpotLightData)

text \<open>
  C6. For every pointLightCount and spotLightCount from 0 to their capacity 8, every
  read of pointLights[i] with 0 <= i < pointLightCount and of spotLights[j] with
  0 <= j < spotLightCount is within the bounds of the array: the element exists, and
  its bytes lie inside the array field (pointLights occupies the bytes 144 to 655,
  spotLights the bytes 656 to 1551 of the 1824 bytes of LightingData).
\<close>

theorem light_reads_in_bounds:
  assumes "0 \<le> pointLightCount" "pointLightCount \<le> int MAX_POINT_LIGHTS"
    and "0 \<le> spotLightCount" "spotLightCount \<le> int MAX_SPOT_LIGHTS"
    and "0 \<le> i" "i < pointLightCount" "0 \<le> j" "j < spotLightCount"
  shows "index_field simd_abi LightingData ''pointLights'' i
           = Some (144 + nat i * 64, PointLightData)
       \<and> offsetof simd_abi LightingData ''pointLights'' = Some 144
       \<and> 144 + nat i * 64 + sizeof simd_abi PointLightData
           \<le> 144 + sizeof simd_abi (Array PointLightData MAX_POINT_LIGHTS)
       \<and> index_field simd_abi LightingData ''spotLights'' j
           = Some (656 + nat j * 112, SpotLightData)
       \<and> offsetof simd_abi LightingData ''spotLights'' = Some 656
       \<and> 656 + nat j * 112 + sizeof simd_abi SpotLightData
           \<le> 656 + sizeof simd_abi (Array SpotLightData MAX_SPOT_LIGHTS)
       \<and> 656 + sizeof simd_abi (Array SpotLightData MAX_SPOT_LIGHTS)
           \<le> sizeof simd_abi LightingData"
proof -
  from assms have i: "0 \<le> i" "i < 8" and j: "0 \<le> j" "j < 8"
    by (simp_all add: MAX_POINT_LIGHTS_def MAX_SPOT_LIGHTS_def)
  from i have ni: "nat i < 8" by simp
  from j have nj: "nat j < 8" by simp
  show ?thesis
    using i j ni nj
    by (simp add: index_pointLights index_spotLights layout_PointLightData
        layout_SpotLightData layout_LightingData offsetof_def LightingData_offsets
        capacity_defs)
qed

theorem light_reads_in_bounds_witness:
  "(0::int) \<le> 8 \<and> (8::int) \<le> int MAX_POINT_LIGHTS \<and> (8::int) \<le> int MAX_SPOT_LIGHTS
   \<and> (0::int) \<le> 7 \<and> (7::int) < 8
   \<and> index_field simd_abi LightingData ''pointLights'' 7 = Some (592, PointLightData)
   \<and> index_field simd_abi LightingData ''spotLights'' 7 = Some (1440, SpotLightData)
   \<and> index_field simd_abi LightingData ''pointLights'' 8 = None
   \<and> index_field simd_abi LightingData ''spotLights'' 8 = None"
  using light_reads_in_bounds [of 8 8 7 7]
  by (simp add: MAX_POINT_LIGHTS_def MAX_SPOT_LIGHTS_def index_pointLights index_spotLights)

section \<open>The byte image of a directional light\<close>


















end
